theory Spec2Isabelle
  imports Main
begin

section \<open>Strings and arrays of the host language\<close>

text \<open>
  Source text is a \<open>string\<close>. Every \<open>getText(sourceFile)\<close> of the parser is a string
  stored in the node, and every optional child (\<open>type\<close>, \<open>initializer\<close>, \<open>name\<close>) is an
  \<open>option\<close>: a present child is an object and therefore truthy, whatever its text.
\<close>

definition nl :: string where
  "nl = [CHR 0x0A]"

definition sq :: string where
  "sq = [CHR 0x27]"

text \<open>\<open>Array.prototype.join\<close>.\<close>

fun join :: "string \<Rightarrow> string list \<Rightarrow> string" where
  "join sep [] = ''''"
| "join sep [x] = x"
| "join sep (x # y # ys) = x @ sep @ join sep (y # ys)"

text \<open>\<open>String.prototype.startsWith\<close> and \<open>String.prototype.includes\<close>.\<close>

fun startsWith :: "string \<Rightarrow> string \<Rightarrow> bool" where
  "startsWith s [] = True"
| "startsWith [] (c # cs) = False"
| "startsWith (d # ds) (c # cs) = (d = c \<and> startsWith ds cs)"

fun includesStr :: "string \<Rightarrow> string \<Rightarrow> bool" where
  "includesStr [] sub = (sub = [])"
| "includesStr (c # cs) sub = (startsWith (c # cs) sub \<or> includesStr cs sub)"

text \<open>
  \<open>String.prototype.indexOf\<close> and \<open>String.prototype.split\<close> with a string separator:
  the pieces between the successive occurrences of the separator, found from the left;
  an empty separator cuts the string into its characters.
\<close>

fun indexOf :: "string \<Rightarrow> string \<Rightarrow> nat option" where
  "indexOf [] sep = (if sep = [] then Some 0 else None)"
| "indexOf (c # cs) sep =
     (if startsWith (c # cs) sep then Some 0 else map_option Suc (indexOf cs sep))"

function split :: "string \<Rightarrow> string \<Rightarrow> string list" where
  "split s sep =
     (if sep = [] then map (\<lambda>c. [c]) s
      else case indexOf s sep of
             None \<Rightarrow> [s]
           | Some i \<Rightarrow> take i s # split (drop (i + length sep) s) sep)"
  by pat_completeness auto

termination split
proof (relation "measure (\<lambda>(s, sep). length s)")
  show "wf (measure (\<lambda>(s, sep). length s))" by simp
next
  fix s sep :: string and i :: nat
  assume sep: "sep \<noteq> []" and found: "indexOf s sep = Some i"
  have sw: "startsWith a b \<Longrightarrow> length b \<le> length a" for a b
    by (induction a b rule: startsWith.induct) auto
  have bound: "indexOf t sep = Some j \<Longrightarrow> j + length sep \<le> length t" for t j
  proof (induction t arbitrary: j)
    case Nil
    then show ?case by (simp split: if_splits)
  next
    case (Cons c cs)
    show ?case
    proof (cases "startsWith (c # cs) sep")
      case True
      with Cons.prems sw [OF True] show ?thesis by simp
    next
      case False
      with Cons.prems obtain k where "indexOf cs sep = Some k" "j = Suc k" by auto
      with Cons.IH [of k] show ?thesis by simp
    qed
  qed
  from bound [OF found] sep
  show "((drop (i + length sep) s, sep), (s, sep)) \<in> measure (\<lambda>(s, sep). length s)"
    by (cases sep) auto
qed

text \<open>\<open>Array.prototype.at(-1)\<close>: the last element, \<open>undefined\<close> on an empty array.\<close>

definition at_last :: "'a list \<Rightarrow> 'a option" where
  "at_last xs = (if xs = [] then None else Some (last xs))"

section \<open>Syntax nodes\<close>

text \<open>
  A parameter name is an identifier or a binding pattern; only a pattern has
  \<open>elements\<close>.
\<close>

datatype BindingName =
    Identifier (getText: string)
  | BindingPattern (getText: string) (elements: "string list")

record ParameterDeclaration =
  param_name :: BindingName
  param_type :: "string option"
  param_questionToken :: bool
  param_initializer :: "string option"
  param_jsDoc :: "string list"

record PropertySignature =
  prop_name :: string
  prop_type :: "string option"
  prop_jsDoc :: "string list"

text \<open>Method declarations (classes) and method signatures (interfaces, type literals).\<close>

record MethodNode =
  method_name :: string
  method_typeParameters :: "string list option"
  method_parameters :: "ParameterDeclaration list"
  method_type :: "string option"
  method_jsDoc :: "string list"

record ConstructorDeclaration =
  ctor_typeParameters :: "string list option"
  ctor_parameters :: "ParameterDeclaration list"
  ctor_jsDoc :: "string list"

datatype TypeElement =
    isPropertySignature: PropertySignatureMember (asPropertySignature: PropertySignature)
  | isMethodSignature: MethodSignatureMember (asMethodSignature: MethodNode)
  | OtherTypeElement

datatype ClassElement =
    isPropertyDeclaration: PropertyDeclarationMember (asPropertyDeclaration: PropertySignature)
  | isMethodDeclarationMember: MethodDeclarationMember (asMethodDeclarationMember: MethodNode)
  | isConstructorDeclaration: ConstructorMember (asConstructor: ConstructorDeclaration)
  | OtherClassElement

record EnumMember =
  member_name :: string
  member_initializer :: "string option"

record EnumDeclaration =
  enum_name :: string
  enum_members :: "EnumMember list"

record InterfaceDeclaration =
  iface_name :: string
  iface_typeParameters :: "string list option"
  iface_members :: "TypeElement list"

record ClassDeclaration =
  class_name :: "string option"
  class_typeParameters :: "string list option"
  class_members :: "ClassElement list"

text \<open>
  The aliased type of a type alias, as far as the emitter looks into it: a function type
  with its parameters and its return type, a type literal with its members, or anything
  else with its text.
\<close>

datatype ReturnTypeNode =
    ReturnTypeLiteral "TypeElement list"
  | ReturnTypeOther string

datatype TypeNode =
    FunctionTypeNode "ParameterDeclaration list" ReturnTypeNode
  | TypeLiteralNode "TypeElement list"
  | OtherTypeNode string

record TypeAliasDeclaration =
  alias_name :: string
  alias_typeParameters :: "string list option"
  alias_type :: TypeNode

record FunctionDeclaration =
  fun_name :: "string option"
  fun_parameters :: "ParameterDeclaration list"
  fun_type :: "string option"

datatype SyntaxKind = DeclareKeyword | ExportKeyword | OtherModifier

record VariableDeclaration =
  decl_nameIsIdentifier :: bool
  decl_text :: string

text \<open>
  The parser leaves \<open>modifiers\<close> undefined on a statement without modifiers and never
  builds an empty array, so the empty list stands for the absent array.
\<close>

record VariableStatement =
  var_modifiers :: "SyntaxKind list"
  var_declarations :: "VariableDeclaration list"
  var_jsDoc :: "string list"

datatype Node =
    isEnumDeclaration: EnumNode (asEnum: EnumDeclaration)
  | isClassDeclaration: ClassNode (asClass: ClassDeclaration)
  | isInterfaceDeclaration: InterfaceNode (asInterface: InterfaceDeclaration)
  | isTypeAliasDeclaration: TypeAliasNode (asTypeAlias: TypeAliasDeclaration)
  | isFunctionDeclaration: FunctionNode (asFunction: FunctionDeclaration)
  | isMethodDeclaration: MethodDeclarationNode (asMethod: MethodNode)
  | isVariableStatement: VariableStatementNode (asVariableStatement: VariableStatement)
  | isImportDeclaration: ImportNode
  | OtherNode

text \<open>
  A child that the parser's node types declare as required (the name of an enum, an
  interface, a type alias, a method or a property) is always an object, so a truthiness
  test on it always succeeds. The tests stay in the model, in the place they have in the
  source.
\<close>

definition present :: "'a \<Rightarrow> bool" where
  "present x = True"

text \<open>Truthiness of an optional string: \<open>undefined\<close> and the empty string are falsy.\<close>

fun truthy :: "string option \<Rightarrow> bool" where
  "truthy None = False"
| "truthy (Some s) = (s \<noteq> [])"

section \<open>Signature formatter\<close>

definition getJsDocComment :: "string list \<Rightarrow> string" where
  "getJsDocComment jsDocs =
     (let comment = foldl (\<lambda>comment jsDoc. comment @ jsDoc) [] jsDocs
      in if comment \<noteq> [] then comment @ nl else [])"

text \<open>The locals of the callback of \<open>getParametersSignature\<close>, one definition each.\<close>

definition parameterType :: "ParameterDeclaration \<Rightarrow> string" where
  "parameterType parameter =
     (case param_type parameter of Some t \<Rightarrow> t | None \<Rightarrow> ''unknown'')"

definition parameterOptional :: "ParameterDeclaration \<Rightarrow> string" where
  "parameterOptional parameter =
     (if param_questionToken parameter \<or> param_initializer parameter \<noteq> None
      then ''?'' else [])"

definition parameterName :: "ParameterDeclaration \<Rightarrow> string" where
  "parameterName parameter =
     (let name = getText (param_name parameter)
      in case param_name parameter of
           Identifier _ \<Rightarrow> name
         | BindingPattern _ els \<Rightarrow> if length els > 1 then ''param'' else name)"

definition parameterFragment :: "ParameterDeclaration \<Rightarrow> string" where
  "parameterFragment parameter =
     getJsDocComment (param_jsDoc parameter) @ parameterName parameter
       @ parameterOptional parameter @ '': '' @ parameterType parameter"

definition getParametersSignature :: "ParameterDeclaration list \<Rightarrow> string" where
  "getParametersSignature parameters = join '', '' (map parameterFragment parameters)"

definition getPropertySignature :: "PropertySignature \<Rightarrow> string" where
  "getPropertySignature member =
     (let propertyName = prop_name member;
          propertyType = (case prop_type member of Some t \<Rightarrow> t | None \<Rightarrow> ''unknown'');
          comment = getJsDocComment (prop_jsDoc member)
      in nl @ ''  '' @ comment @ ''  '' @ propertyName @ '': '' @ propertyType @ nl)"

definition getGenerics :: "string list option \<Rightarrow> string" where
  "getGenerics typeParameters =
     (case typeParameters of
        None \<Rightarrow> []
      | Some params \<Rightarrow>
          foldl (\<lambda>genericTypes param.
                   genericTypes @ (if genericTypes = [] then param else '', '' @ param))
            [] params)"

definition angle :: "string \<Rightarrow> string" where
  "angle generic = (if generic \<noteq> [] then ''<'' @ generic @ ''>'' else [])"

section \<open>Declaration emitters\<close>

definition enumMemberLine :: "EnumMember \<Rightarrow> string" where
  "enumMemberLine member =
     (let memberName = member_name member;
          memberValue = (case member_initializer member of Some t \<Rightarrow> t | None \<Rightarrow> [])
      in ''  '' @ memberName @ ''='' @ memberValue @ '','' @ nl)"

definition generateTypeEnumeration :: "EnumDeclaration \<Rightarrow> string" where
  "generateTypeEnumeration node =
     (let membersInfo =
            foldl (\<lambda>membersInfo member. membersInfo @ enumMemberLine member) []
              (enum_members node)
      in ''declare enum '' @ enum_name node @ '' {'' @ nl @ membersInfo @ ''}'' @ nl @ nl)"

definition generateTypeMethod :: "MethodNode \<Rightarrow> string" where
  "generateTypeMethod node =
     (let genericTypes = getGenerics (method_typeParameters node);
          methodSignature = (case method_type node of Some t \<Rightarrow> t | None \<Rightarrow> ''void'');
          parameters = getParametersSignature (method_parameters node);
          comment = getJsDocComment (method_jsDoc node)
      in if \<not> present (method_name node) then []
         else ''  '' @ comment @ method_name node @ angle genericTypes
                @ ''('' @ parameters @ ''): '' @ methodSignature @ nl)"

definition interfaceMember :: "TypeElement \<Rightarrow> string" where
  "interfaceMember member =
     (if isPropertySignature member \<and> present (prop_name (asPropertySignature member))
      then getPropertySignature (asPropertySignature member)
      else if isMethodSignature member \<and> present (method_name (asMethodSignature member))
      then (let m = asMethodSignature member;
                methodName = method_name m;
                parameters = getParametersSignature (method_parameters m);
                returnType = (case method_type m of Some t \<Rightarrow> t | None \<Rightarrow> ''unknown'')
            in ''  '' @ methodName @ ''('' @ parameters @ ''): '' @ returnType @ nl)
      else [])"

definition generateTypeInterface :: "InterfaceDeclaration \<Rightarrow> string" where
  "generateTypeInterface node =
     (let genericTypes = getGenerics (iface_typeParameters node);
          membersInfo =
            foldl (\<lambda>membersInfo member. membersInfo @ interfaceMember member) []
              (iface_members node)
      in ''declare interface '' @ iface_name node @ '' '' @ angle genericTypes
           @ '' {'' @ nl @ membersInfo @ ''}'' @ nl @ nl)"

definition functionTypeMember :: "TypeElement \<Rightarrow> string" where
  "functionTypeMember member =
     (if isMethodSignature member then generateTypeMethod (asMethodSignature member)
      else if isPropertySignature member then getPropertySignature (asPropertySignature member)
      else [])"

definition typeLiteralMember :: "TypeElement \<Rightarrow> string" where
  "typeLiteralMember member =
     (if isMethodSignature member
      then (let m = asMethodSignature member;
                methodName = method_name m;
                parameters = getParametersSignature (method_parameters m);
                returnType = (case method_type m of Some t \<Rightarrow> t | None \<Rightarrow> ''unknown'')
            in ''  '' @ methodName @ '': ('' @ parameters @ '') => '' @ returnType)
      else if isPropertySignature member then getPropertySignature (asPropertySignature member)
      else [])"

definition generateTypeType :: "TypeAliasDeclaration \<Rightarrow> string" where
  "generateTypeType node =
     (let generic = angle (getGenerics (alias_typeParameters node));
          declaration = ''declare type '' @ alias_name node @ generic @ '' = ''
      in case alias_type node of
           FunctionTypeNode params returnTypeDeclaration \<Rightarrow>
             (let parametersDeclaration = getParametersSignature params;
                  declaration' =
                    (if parametersDeclaration \<noteq> []
                     then declaration @ ''('' @ parametersDeclaration @ '')''
                     else declaration);
                  membersInfo =
                    (case returnTypeDeclaration of
                       ReturnTypeLiteral members \<Rightarrow>
                         '' => {'' @ nl
                           @ foldl (\<lambda>membersInfo member. membersInfo @ functionTypeMember member)
                               [] members
                           @ ''}''
                     | ReturnTypeOther _ \<Rightarrow> [])
              in declaration' @ membersInfo @ nl @ nl)
         | TypeLiteralNode members \<Rightarrow>
             declaration @ ''{'' @ nl
               @ foldl (\<lambda>membersInfo member. membersInfo @ typeLiteralMember member) [] members
               @ ''}'' @ nl @ nl
         | OtherTypeNode text \<Rightarrow> declaration @ text @ nl @ nl)"

definition generateVariableDeclarationType :: "VariableStatement \<Rightarrow> string" where
  "generateVariableDeclarationType node =
     (let comment = getJsDocComment (var_jsDoc node)
      in if var_modifiers node = [] \<or> hd (var_modifiers node) \<noteq> DeclareKeyword then []
         else comment
                @ foldl (\<lambda>declarationReturn declaration.
                           if decl_nameIsIdentifier declaration
                           then declarationReturn @ decl_text declaration
                           else declarationReturn)
                    ''declare const '' (var_declarations node)
                @ nl @ nl)"

definition generateTypeFunction :: "FunctionDeclaration \<Rightarrow> string" where
  "generateTypeFunction node =
     (if \<not> truthy (fun_name node) then []
      else (let functionName = the (fun_name node);
                parameters = getParametersSignature (fun_parameters node);
                returnType = (case fun_type node of Some t \<Rightarrow> t | None \<Rightarrow> ''void'')
            in ''declare function '' @ functionName @ ''('' @ parameters @ ''):''
                 @ returnType @ nl @ nl))"

definition constructorGenerics :: "string list option \<Rightarrow> string" where
  "constructorGenerics typeParameters =
     (case typeParameters of
        None \<Rightarrow> []
      | Some params \<Rightarrow>
          foldl (\<lambda>genericTypes param.
                   genericTypes @ (if genericTypes \<noteq> [] then '', '' @ param else param))
            [] params)"

definition classMember :: "ClassElement \<Rightarrow> string" where
  "classMember member =
     (if isPropertyDeclaration member \<and> present (prop_name (asPropertyDeclaration member))
      then getPropertySignature (asPropertyDeclaration member)
      else if isMethodDeclarationMember member
              \<and> present (method_name (asMethodDeclarationMember member))
      then generateTypeMethod (asMethodDeclarationMember member)
      else if isConstructorDeclaration member
      then (let c = asConstructor member;
                parameters = getParametersSignature (ctor_parameters c);
                comment = getJsDocComment (ctor_jsDoc c);
                genericTypes = angle (constructorGenerics (ctor_typeParameters c))
            in ''  '' @ comment @ ''constructor'' @ genericTypes @ ''('' @ parameters @ '')'' @ nl)
      else [])"

definition generateClassType :: "ClassDeclaration \<Rightarrow> string" where
  "generateClassType node =
     (let genericClass = getGenerics (class_typeParameters node)
      in case class_name node of
           None \<Rightarrow> []
         | Some name \<Rightarrow>
             (let membersInfo =
                    foldl (\<lambda>membersInfo member. membersInfo @ classMember member) []
                      (class_members node)
              in ''declare class '' @ name @ angle genericClass @ '' {'' @ nl @ nl
                   @ membersInfo @ ''}'' @ nl))"

text \<open>
  The enum emitter of \<open>src/index.ts\<close>, the other revision of the same class in the
  repository: it closes the declaration with one line break.
\<close>

definition generateTypeEnumeration_index :: "EnumDeclaration \<Rightarrow> string" where
  "generateTypeEnumeration_index node =
     (let membersInfo =
            foldl (\<lambda>membersInfo member. membersInfo @ enumMemberLine member) []
              (enum_members node)
      in ''declare enum '' @ enum_name node @ '' {'' @ nl @ membersInfo @ ''}'' @ nl)"

section \<open>File traversal\<close>

text \<open>
  The callback of \<open>sourceFile.forEachChild\<close> in \<open>generateTypeDeclarationFromFile\<close>:
  what one top-level node appends to \<open>declarations\<close>. The branch of an import
  declaration is empty in the source.
\<close>

definition emitNode :: "Node \<Rightarrow> string" where
  "emitNode node =
     (if isEnumDeclaration node \<and> present (enum_name (asEnum node))
      then generateTypeEnumeration (asEnum node)
      else if isClassDeclaration node \<and> class_name (asClass node) \<noteq> None
      then generateClassType (asClass node)
      else if isInterfaceDeclaration node \<and> present (iface_name (asInterface node))
      then generateTypeInterface (asInterface node)
      else if isTypeAliasDeclaration node \<and> present (alias_name (asTypeAlias node))
      then generateTypeType (asTypeAlias node)
      else if isFunctionDeclaration node \<and> fun_name (asFunction node) \<noteq> None
      then generateTypeFunction (asFunction node)
      else if isMethodDeclaration node \<and> present (method_name (asMethod node))
      then generateTypeMethod (asMethod node)
      else if isVariableStatement node
      then generateVariableDeclarationType (asVariableStatement node)
      else if isImportDeclaration node then []
      else [])"

definition declarationsOf :: "Node list \<Rightarrow> string option" where
  "declarationsOf children =
     (let declarations = foldl (\<lambda>declarations node. declarations @ emitNode node) [] children
      in if declarations \<noteq> [] then Some declarations else None)"

text \<open>
  The kind tests of the traversal by name, the emitter each one guards, and the order in
  which the specification lists them.
\<close>

datatype Emitter =
    EnumEmitter | ClassEmitter | InterfaceEmitter | TypeAliasEmitter
  | FunctionEmitter | MethodEmitter | VariableStatementEmitter

fun kindPredicate :: "Emitter \<Rightarrow> Node \<Rightarrow> bool" where
  "kindPredicate EnumEmitter node =
     (isEnumDeclaration node \<and> present (enum_name (asEnum node)))"
| "kindPredicate ClassEmitter node =
     (isClassDeclaration node \<and> class_name (asClass node) \<noteq> None)"
| "kindPredicate InterfaceEmitter node =
     (isInterfaceDeclaration node \<and> present (iface_name (asInterface node)))"
| "kindPredicate TypeAliasEmitter node =
     (isTypeAliasDeclaration node \<and> present (alias_name (asTypeAlias node)))"
| "kindPredicate FunctionEmitter node =
     (isFunctionDeclaration node \<and> fun_name (asFunction node) \<noteq> None)"
| "kindPredicate MethodEmitter node =
     (isMethodDeclaration node \<and> present (method_name (asMethod node)))"
| "kindPredicate VariableStatementEmitter node = isVariableStatement node"

fun emitterOutput :: "Emitter \<Rightarrow> Node \<Rightarrow> string" where
  "emitterOutput EnumEmitter node = generateTypeEnumeration (asEnum node)"
| "emitterOutput ClassEmitter node = generateClassType (asClass node)"
| "emitterOutput InterfaceEmitter node = generateTypeInterface (asInterface node)"
| "emitterOutput TypeAliasEmitter node = generateTypeType (asTypeAlias node)"
| "emitterOutput FunctionEmitter node = generateTypeFunction (asFunction node)"
| "emitterOutput MethodEmitter node = generateTypeMethod (asMethod node)"
| "emitterOutput VariableStatementEmitter node =
     generateVariableDeclarationType (asVariableStatement node)"

definition priorityOrder :: "Emitter list" where
  "priorityOrder =
     [EnumEmitter, ClassEmitter, InterfaceEmitter, TypeAliasEmitter,
      FunctionEmitter, MethodEmitter, VariableStatementEmitter]"

definition firstMatch :: "Node \<Rightarrow> Emitter option" where
  "firstMatch node = find (\<lambda>e. kindPredicate e node) priorityOrder"

section \<open>Configuration, file selection and the run\<close>

record CompilerOptions =
  rootDir :: "string option"
  outFile :: "string option"

record TsConfigOptions =
  compilerOptions :: "CompilerOptions option"
  includePaths :: "string list"
  exclude :: "string list"

text \<open>
  What the run throws: an \<open>Error\<close> with its message, a \<open>TypeError\<close> of the runtime
  (a property read on \<open>undefined\<close>, a path argument that is not a string), or an error
  of a file-system call.
\<close>

datatype error = Error string | TypeError | SystemError

text \<open>
  The file system: the content of each file, and for each directory that exists the
  recursive listing that \<open>readdirSync\<close> returns for it when the run calls it.
\<close>

record FileSystem =
  files :: "string \<rightharpoonup> string"
  entries :: "string \<rightharpoonup> string list"

text \<open>
  The collaborators outside the repository: the working directory, \<open>path.resolve\<close>,
  \<open>path.join\<close> and the directory part of a path, \<open>JSON.parse\<close> of the configuration
  document (\<open>None\<close> where it throws), and the parser, which maps a path and the text
  read there to the top-level children of the source file (\<open>None\<close> for no source
  file).
\<close>

record Env =
  cwd :: string
  path_resolve :: "string \<Rightarrow> string \<Rightarrow> string"
  path_join :: "string \<Rightarrow> string \<Rightarrow> string"
  path_dirname :: "string \<Rightarrow> string"
  parseConfig :: "string \<Rightarrow> TsConfigOptions option"
  createSourceFile :: "string \<Rightarrow> string \<Rightarrow> Node list option"

definition existsSync :: "FileSystem \<Rightarrow> string \<Rightarrow> bool" where
  "existsSync fs p = (files fs p \<noteq> None \<or> entries fs p \<noteq> None)"

definition rmSync :: "FileSystem \<Rightarrow> string \<Rightarrow> error + FileSystem" where
  "rmSync fs p =
     (if files fs p \<noteq> None then Inr (fs\<lparr>files := (files fs)(p := None)\<rparr>)
      else Inl SystemError)"

text \<open>
  \<open>writeFileSync\<close> creates or replaces a file in a directory that exists; it throws
  when the directory of the path is missing, and when the path is a directory.
\<close>

definition writeFileSync :: "Env \<Rightarrow> FileSystem \<Rightarrow> string \<Rightarrow> string \<Rightarrow> error + FileSystem" where
  "writeFileSync env fs p content =
     (if entries fs (path_dirname env p) = None \<or> entries fs p \<noteq> None then Inl SystemError
      else Inr (fs\<lparr>files := (files fs)(p \<mapsto> content)\<rparr>))"

text \<open>
  \<open>includes(pattern as string)\<close>: an \<open>undefined\<close> pattern is converted to the string
  \<open>undefined\<close>. The filter keeps a file when \<open>find\<close> returns a truthy value: the first
  pattern found in the file name, if it is not the empty string.
\<close>

definition patternText :: "string option \<Rightarrow> string" where
  "patternText pattern = (case pattern of None \<Rightarrow> ''undefined'' | Some s \<Rightarrow> s)"

definition patternOf :: "string \<Rightarrow> string option" where
  "patternOf includePath = at_last (split includePath ''*.'')"

definition selected :: "string option list \<Rightarrow> string \<Rightarrow> bool" where
  "selected patterns fileName =
     (case find (\<lambda>pattern. includesStr fileName (patternText pattern)) patterns of
        None \<Rightarrow> False
      | Some pattern \<Rightarrow> truthy pattern)"

definition rootDirError :: "string \<Rightarrow> error" where
  "rootDirError tsConfigPath =
     Error (''Expected rootDir option in '' @ tsConfigPath @ '' session compilerOptions'')"

definition outFileError :: "string \<Rightarrow> error" where
  "outFileError tsConfigPath =
     Error (''Expected outFile option in '' @ tsConfigPath @ '' session compilerOptions'')"

definition getFiles :: "Env \<Rightarrow> string \<Rightarrow> TsConfigOptions \<Rightarrow> FileSystem \<Rightarrow> error + string list" where
  "getFiles env tsConfigPath tsConfigOptions fs =
     (case compilerOptions tsConfigOptions of
        None \<Rightarrow> Inl TypeError
      | Some options \<Rightarrow>
          (if \<not> truthy (rootDir options) then Inl (rootDirError tsConfigPath)
           else (case entries fs (path_resolve env (cwd env) (the (rootDir options))) of
                   None \<Rightarrow> Inl SystemError
                 | Some fileNames \<Rightarrow>
                     (let patterns = map patternOf (includePaths tsConfigOptions)
                      in Inr (filter (selected patterns) fileNames)))))"

definition setTsConfig :: "Env \<Rightarrow> string \<Rightarrow> FileSystem \<Rightarrow> TsConfigOptions option" where
  "setTsConfig env tsConfigPath fs =
     (case files fs tsConfigPath of
        None \<Rightarrow> None
      | Some text \<Rightarrow> parseConfig env text)"

text \<open>
  \<open>ts.sys.readFile\<close> returns \<open>undefined\<close> for a path it cannot read (a missing file, a
  directory of the listing), and the parser throws a \<open>TypeError\<close> on an undefined text.
\<close>

definition generateTypeDeclarationFromFile ::
  "Env \<Rightarrow> FileSystem \<Rightarrow> string \<Rightarrow> error + string option" where
  "generateTypeDeclarationFromFile env fs filePath =
     (case files fs filePath of
        None \<Rightarrow> Inl TypeError
      | Some sourceText \<Rightarrow>
          (case createSourceFile env filePath sourceText of
             None \<Rightarrow> Inr None
           | Some children \<Rightarrow> Inr (declarationsOf children)))"

text \<open>
  The loop of \<open>run\<close> over the selected files: each file appends its declarations and a
  line break to \<open>outputContent\<close>; an error of a file ends the loop.
\<close>

fun generateEach :: "Env \<Rightarrow> FileSystem \<Rightarrow> string \<Rightarrow> string \<Rightarrow> string list \<Rightarrow> error + string" where
  "generateEach env fs root outputContent [] = Inr outputContent"
| "generateEach env fs root outputContent (file # rest) =
     (case generateTypeDeclarationFromFile env fs (path_join env root file) of
        Inl e \<Rightarrow> Inl e
      | Inr None \<Rightarrow> generateEach env fs root outputContent rest
      | Inr (Some data) \<Rightarrow> generateEach env fs root (outputContent @ data @ nl) rest)"

definition run :: "Env \<Rightarrow> string \<Rightarrow> FileSystem \<Rightarrow> (error + unit) \<times> FileSystem" where
  "run env tsConfigPath fs =
     (case setTsConfig env tsConfigPath fs of
        None \<Rightarrow> (Inl TypeError, fs)
      | Some tsConfigOptions \<Rightarrow>
     (case compilerOptions tsConfigOptions of
        None \<Rightarrow> (Inl TypeError, fs)
      | Some options \<Rightarrow>
     (case outFile options of
        None \<Rightarrow> (Inl TypeError, fs)
      | Some out \<Rightarrow>
     (let outputFile = path_resolve env (cwd env) out
      in case (if existsSync fs outputFile then rmSync fs outputFile else Inr fs) of
           Inl e \<Rightarrow> (Inl e, fs)
         | Inr fs1 \<Rightarrow>
             (if \<not> truthy (outFile options) then (Inl (outFileError tsConfigPath), fs1)
              else (case getFiles env tsConfigPath tsConfigOptions fs1 of
                      Inl e \<Rightarrow> (Inl e, fs1)
                    | Inr fileNames \<Rightarrow>
                        (case generateEach env fs1 (the (rootDir options)) [] fileNames of
                           Inl e \<Rightarrow> (Inl e, fs1)
                         | Inr outputContent \<Rightarrow>
                             (case writeFileSync env fs1 outputFile outputContent of
                                Inl e \<Rightarrow> (Inl e, fs1)
                              | Inr fs2 \<Rightarrow> (Inr (), fs2)))))))))"

section \<open>Import deduplication\<close>

text \<open>
  A \<open>Set\<close> of strings iterates in insertion order: a list without repetition, a new
  element going to the end. The import map sends a module path to such a set.
\<close>

definition setAdd :: "string list \<Rightarrow> string \<Rightarrow> string list" where
  "setAdd s x = (if x \<in> set s then s else s @ [x])"

definition newSet :: "string list \<Rightarrow> string list" where
  "newSet xs = foldl setAdd [] xs"

datatype ModuleSpecifier = StringLiteral string | OtherExpression

datatype NamedBindings = NamedImports "string list" | NamespaceImport string

record ImportClause =
  namedBindings :: "NamedBindings option"

record ImportDeclaration =
  moduleSpecifier :: ModuleSpecifier
  importClause :: "ImportClause option"

text \<open>The loop over the elements of a module path that the map already has.\<close>

definition importStep :: "string \<times> string list \<Rightarrow> string \<Rightarrow> string \<times> string list" where
  "importStep st element =
     (case st of (declaration, recorded) \<Rightarrow>
        if element \<notin> set recorded
        then (if declaration \<noteq> [] then declaration @ '', '' @ element
              else ''import { '' @ element,
              setAdd recorded element)
        else (declaration, recorded))"

definition generateTypeImport ::
  "(string \<rightharpoonup> string list) \<Rightarrow> ImportDeclaration \<Rightarrow> string \<times> (string \<rightharpoonup> string list)" where
  "generateTypeImport importMap node =
     (let modulePath = (case moduleSpecifier node of
                          StringLiteral text \<Rightarrow> Some text
                        | OtherExpression \<Rightarrow> None)
      in if importClause node \<noteq> None \<and> truthy modulePath
            \<and> \<not> startsWith (the modulePath) ''.'' \<and> \<not> startsWith (the modulePath) ''/''
         then (case namedBindings (the (importClause node)) of
                 Some (NamedImports els) \<Rightarrow>
                   (case importMap (the modulePath) of
                      Some recorded \<Rightarrow>
                        (case foldl importStep ([], recorded) els of
                           (declaration, recorded') \<Rightarrow>
                             ((if declaration \<noteq> []
                               then declaration @ ''} from '' @ sq @ the modulePath @ sq @ nl @ nl
                               else []),
                              importMap(the modulePath \<mapsto> recorded')))
                    | None \<Rightarrow>
                        (''import {'' @ join '','' (newSet els) @ ''} from '' @ sq
                           @ the modulePath @ sq @ nl @ nl,
                         importMap(the modulePath \<mapsto> newSet els)))
               | _ \<Rightarrow> ([], importMap))
         else ([], importMap))"

text \<open>
  The bindings of an import that a set does not hold yet, each once, in the order of the
  import.
\<close>

fun notYetRecorded :: "string list \<Rightarrow> string list \<Rightarrow> string list" where
  "notYetRecorded recorded [] = []"
| "notYetRecorded recorded (x # xs) =
     (if x \<in> set recorded then notYetRecorded recorded xs
      else x # notYetRecorded (recorded @ [x]) xs)"

definition namedImport :: "string \<Rightarrow> string list \<Rightarrow> ImportDeclaration" where
  "namedImport modulePath els =
     \<lparr>moduleSpecifier = StringLiteral modulePath,
      importClause = Some \<lparr>namedBindings = Some (NamedImports els)\<rparr>\<rparr>"

section \<open>An example project\<close>

text \<open>
  A project in \<open>/proj\<close> with the configuration of the README, for evaluating the run:
  paths are resolved by putting the base directory in front.
\<close>

definition exampleEnv :: "TsConfigOptions \<Rightarrow> Env" where
  "exampleEnv config =
     \<lparr>cwd = ''/proj'',
      path_resolve = (\<lambda>base p. base @ ''/'' @ p),
      path_join = (\<lambda>a b. a @ ''/'' @ b),
      path_dirname = (\<lambda>p. rev (drop 1 (dropWhile (\<lambda>c. c \<noteq> CHR ''/'') (rev p)))),
      parseConfig = (\<lambda>text. Some config),
      createSourceFile = (\<lambda>filePath text. Some [])\<rparr>"

definition exampleFs :: FileSystem where
  "exampleFs =
     \<lparr>files = [''/proj/tsconfig.declaration.json'' \<mapsto> ''{ }'',
               ''/proj/types/index.d.ts'' \<mapsto> ''declare enum Color { }''],
      entries = [''/proj/types'' \<mapsto> [''index.d.ts''],
                 ''/proj/src'' \<mapsto>
                 [''user.entity.ts'', ''user.service.ts'', ''data/user.fixtures.ts'']]\<rparr>"

definition exampleConfig :: "string option \<Rightarrow> string list \<Rightarrow> TsConfigOptions" where
  "exampleConfig root patterns =
     \<lparr>compilerOptions = Some \<lparr>rootDir = root, outFile = Some ''types/index.d.ts''\<rparr>,
      includePaths = patterns,
      exclude = [''./src/**/*.service.ts'']\<rparr>"

declare split.simps [simp del]

section \<open>Parameters\<close>

lemma foldl_append_concat:
  "foldl (\<lambda>acc x. acc @ f x) init xs = init @ concat (map f xs)"
  by (induction xs arbitrary: init) simp_all

text \<open>
  C4. In the signature that \<open>getParametersSignature\<close> emits, a parameter whose name is a
  binding pattern with more than one element stands under the name \<open>param\<close>; a pattern
  with one element and a plain identifier stand under their own source text. The name
  stands in the fragment between the documentation comment and the optionality marker,
  and the signature is the fragments of the parameters, in order, joined by a comma and a
  space.
\<close>

theorem parameter_name_placeholder:
  "getParametersSignature parameters =
     join '', ''
       (map (\<lambda>p. getJsDocComment (param_jsDoc p)
                 @ (case param_name p of
                      Identifier text \<Rightarrow> text
                    | BindingPattern text els \<Rightarrow> if 1 < length els then ''param'' else text)
                 @ parameterOptional p @ '': '' @ parameterType p)
          parameters)
   \<and> (\<forall>text els. param_name parameter = BindingPattern text els \<and> 1 < length els
       \<longrightarrow> getParametersSignature [parameter] =
             getJsDocComment (param_jsDoc parameter) @ ''param''
               @ parameterOptional parameter @ '': '' @ parameterType parameter)
   \<and> (\<forall>text els. param_name parameter = BindingPattern text els \<and> length els = 1
       \<longrightarrow> getParametersSignature [parameter] =
             getJsDocComment (param_jsDoc parameter) @ text
               @ parameterOptional parameter @ '': '' @ parameterType parameter)
   \<and> (\<forall>text. param_name parameter = Identifier text
       \<longrightarrow> getParametersSignature [parameter] =
             getJsDocComment (param_jsDoc parameter) @ text
               @ parameterOptional parameter @ '': '' @ parameterType parameter)
   \<and> (\<forall>text els. param_name parameter = BindingPattern text els \<and> 1 < length els
       \<longrightarrow> parameterName parameter = ''param'')
   \<and> (\<forall>text els. param_name parameter = BindingPattern text els \<and> length els = 1
       \<longrightarrow> parameterName parameter = text)
   \<and> (\<forall>text. param_name parameter = Identifier text \<longrightarrow> parameterName parameter = text)
   \<and> parameterFragment parameter =
       getJsDocComment (param_jsDoc parameter) @ parameterName parameter
         @ parameterOptional parameter @ '': '' @ parameterType parameter"
proof -
  have fragment: "parameterFragment =
      (\<lambda>p. getJsDocComment (param_jsDoc p)
            @ (case param_name p of
                 Identifier text \<Rightarrow> text
               | BindingPattern text els \<Rightarrow> if 1 < length els then ''param'' else text)
            @ parameterOptional p @ '': '' @ parameterType p)"
    by (rule ext) (simp add: parameterFragment_def parameterName_def split: BindingName.split)
  have whole: "getParametersSignature parameters =
     join '', ''
       (map (\<lambda>p. getJsDocComment (param_jsDoc p)
                 @ (case param_name p of
                      Identifier text \<Rightarrow> text
                    | BindingPattern text els \<Rightarrow> if 1 < length els then ''param'' else text)
                 @ parameterOptional p @ '': '' @ parameterType p)
          parameters)"
    by (simp only: getParametersSignature_def fragment)
  have single: "getParametersSignature [parameter] =
      getJsDocComment (param_jsDoc parameter) @ parameterName parameter
        @ parameterOptional parameter @ '': '' @ parameterType parameter"
    by (simp add: getParametersSignature_def parameterFragment_def)
  have names:
    "\<forall>text els. param_name parameter = BindingPattern text els \<and> 1 < length els
       \<longrightarrow> parameterName parameter = ''param''"
    "\<forall>text els. param_name parameter = BindingPattern text els \<and> length els = 1
       \<longrightarrow> parameterName parameter = text"
    "\<forall>text. param_name parameter = Identifier text \<longrightarrow> parameterName parameter = text"
    by (auto simp: parameterName_def)
  have "parameterFragment parameter =
       getJsDocComment (param_jsDoc parameter) @ parameterName parameter
         @ parameterOptional parameter @ '': '' @ parameterType parameter"
    by (simp add: parameterFragment_def)
  with whole names show ?thesis
    unfolding single by simp
qed

theorem parameter_name_placeholder_witness:
  "getParametersSignature
     [\<lparr>param_name = BindingPattern ''{ a, b }'' [''a'', ''b''],
        param_type = Some ''Options'', param_questionToken = False,
        param_initializer = None, param_jsDoc = []\<rparr>,
      \<lparr>param_name = BindingPattern ''[first]'' [''first''],
        param_type = None, param_questionToken = False,
        param_initializer = None, param_jsDoc = []\<rparr>,
      \<lparr>param_name = Identifier ''count'',
        param_type = Some ''number'', param_questionToken = True,
        param_initializer = None, param_jsDoc = []\<rparr>]
   = ''param: Options, [first]: unknown, count?: number''"
  using parameter_name_placeholder [of
     "[\<lparr>param_name = BindingPattern ''{ a, b }'' [''a'', ''b''],
        param_type = Some ''Options'', param_questionToken = False,
        param_initializer = None, param_jsDoc = []\<rparr>,
      \<lparr>param_name = BindingPattern ''[first]'' [''first''],
        param_type = None, param_questionToken = False,
        param_initializer = None, param_jsDoc = []\<rparr>,
      \<lparr>param_name = Identifier ''count'',
        param_type = Some ''number'', param_questionToken = True,
        param_initializer = None, param_jsDoc = []\<rparr>]"]
  by (simp add: getJsDocComment_def parameterOptional_def parameterType_def)



section \<open>Emitters\<close>


text \<open>
  C3, as stated, at the enum emitter of the current engine: for
  \<open>enum Color { Red, Green=2 }\<close> the output is not the string of the claim, which ends
  after one line break.
\<close>

theorem enum_color_counterexample:
  "generateTypeEnumeration
     \<lparr>enum_name = ''Color'',
      enum_members = [\<lparr>member_name = ''Red'', member_initializer = None\<rparr>,
                      \<lparr>member_name = ''Green'', member_initializer = Some ''2''\<rparr>]\<rparr>
   \<noteq> ''declare enum Color {'' @ nl @ ''  Red=,'' @ nl @ ''  Green=2,'' @ nl @ ''}'' @ nl"
  by (simp add: generateTypeEnumeration_def enumMemberLine_def nl_def)

text \<open>
  C3, amended. Each member is one line: two spaces, the member name, \<open>=\<close>, the source
  text of the initializer if there is one and nothing otherwise, a comma and a line
  break. The emitter of the current engine closes the declaration with \<open>}\<close> and two line
  breaks, so that \<open>enum Color { Red, Green=2 }\<close> gives the lines \<open>declare enum Color {\<close>,
  \<open>  Red=,\<close>, \<open>  Green=2,\<close>, \<open>}\<close> and an empty line; the emitter of \<open>src/index.ts\<close> closes
  it with one line break and gives the string without the empty line.
\<close>

theorem enum_emitter_output:
  "(\<forall>t. member_initializer member = Some t \<longrightarrow>
        enumMemberLine member = ''  '' @ member_name member @ ''='' @ t @ '','' @ nl)
   \<and> (member_initializer member = None \<longrightarrow>
        enumMemberLine member = ''  '' @ member_name member @ ''=,'' @ nl)
   \<and> generateTypeEnumeration node =
        ''declare enum '' @ enum_name node @ '' {'' @ nl
          @ concat (map enumMemberLine (enum_members node)) @ ''}'' @ nl @ nl
   \<and> generateTypeEnumeration_index node =
        ''declare enum '' @ enum_name node @ '' {'' @ nl
          @ concat (map enumMemberLine (enum_members node)) @ ''}'' @ nl
   \<and> generateTypeEnumeration
        \<lparr>enum_name = ''Color'',
         enum_members = [\<lparr>member_name = ''Red'', member_initializer = None\<rparr>,
                         \<lparr>member_name = ''Green'', member_initializer = Some ''2''\<rparr>]\<rparr>
      = ''declare enum Color {'' @ nl @ ''  Red=,'' @ nl @ ''  Green=2,'' @ nl @ ''}'' @ nl @ nl
   \<and> generateTypeEnumeration_index
        \<lparr>enum_name = ''Color'',
         enum_members = [\<lparr>member_name = ''Red'', member_initializer = None\<rparr>,
                         \<lparr>member_name = ''Green'', member_initializer = Some ''2''\<rparr>]\<rparr>
      = ''declare enum Color {'' @ nl @ ''  Red=,'' @ nl @ ''  Green=2,'' @ nl @ ''}'' @ nl"
proof -
  have shape:
    "generateTypeEnumeration n =
       ''declare enum '' @ enum_name n @ '' {'' @ nl
         @ concat (map enumMemberLine (enum_members n)) @ ''}'' @ nl @ nl"
    "generateTypeEnumeration_index n =
       ''declare enum '' @ enum_name n @ '' {'' @ nl
         @ concat (map enumMemberLine (enum_members n)) @ ''}'' @ nl" for n
    by (simp_all add: generateTypeEnumeration_def generateTypeEnumeration_index_def
        foldl_append_concat)
  have line:
    "\<forall>t. member_initializer member = Some t \<longrightarrow>
        enumMemberLine member = ''  '' @ member_name member @ ''='' @ t @ '','' @ nl"
    "member_initializer member = None \<longrightarrow>
        enumMemberLine member = ''  '' @ member_name member @ ''=,'' @ nl"
    by (simp_all add: enumMemberLine_def)
  show ?thesis
    unfolding shape using line by (simp add: enumMemberLine_def)
qed

theorem enum_emitter_output_witness:
  "enumMemberLine \<lparr>member_name = ''Green'', member_initializer = Some ''2''\<rparr>
     = ''  Green=2,'' @ nl
   \<and> enumMemberLine \<lparr>member_name = ''Red'', member_initializer = None\<rparr>
     = ''  Red=,'' @ nl"
  using
    enum_emitter_output [of "\<lparr>member_name = ''Green'', member_initializer = Some ''2''\<rparr>"]
    enum_emitter_output [of "\<lparr>member_name = ''Red'', member_initializer = None\<rparr>"]
  by simp







section \<open>Traversal\<close>

lemma kindPredicate_unique:
  "kindPredicate e node \<Longrightarrow> kindPredicate e' node \<Longrightarrow> e' = e"
  by (cases e; cases e'; cases node) simp_all

lemma firstMatch_iff: "firstMatch node = Some e \<longleftrightarrow> kindPredicate e node"
proof
  assume "firstMatch node = Some e"
  then show "kindPredicate e node"
    by (auto simp: firstMatch_def find_Some_iff)
next
  assume match: "kindPredicate e node"
  have "e \<in> set priorityOrder"
    by (cases e) (simp_all add: priorityOrder_def)
  with match obtain e' where found: "firstMatch node = Some e'"
    unfolding firstMatch_def by (cases "find (\<lambda>e. kindPredicate e node) priorityOrder")
      (auto simp: find_None_iff)
  then have "kindPredicate e' node"
    by (auto simp: firstMatch_def find_Some_iff)
  with match found show "firstMatch node = Some e"
    by (simp add: kindPredicate_unique)
qed

lemma emitNode_firstMatch:
  "emitNode node = (case firstMatch node of None \<Rightarrow> [] | Some e \<Rightarrow> emitterOutput e node)"
  by (cases node) (simp_all add: emitNode_def firstMatch_def priorityOrder_def)

text \<open>
  C2, as stated, at an import declaration and at an anonymous class
  (\<open>export default class {}\<close>): no kind test of the traversal holds, no emitter is
  reached, and the node appends the empty string.
\<close>

theorem unmatched_node_counterexample:
  "firstMatch ImportNode = None \<and> emitNode ImportNode = []
   \<and> firstMatch (ClassNode \<lparr>class_name = None, class_typeParameters = None,
                              class_members = []\<rparr>) = None
   \<and> emitNode (ClassNode \<lparr>class_name = None, class_typeParameters = None,
                            class_members = []\<rparr>) = []"
  by (simp add: firstMatch_def priorityOrder_def emitNode_def)

text \<open>
  C2, amended. The traversal tests the kinds in the order Enum, Class, Interface,
  TypeAlias, Function, Method, VariableStatement and appends, for each top-level node, the
  output of at most one emitter: the one whose test is the first to hold, which is then
  the only test that holds; a node for which no test holds reaches no emitter and appends
  nothing. The declarations of a file are these contributions, one for each node, in node
  order.
\<close>

theorem dispatch_first_match:
  "emitNode node = (case firstMatch node of None \<Rightarrow> [] | Some e \<Rightarrow> emitterOutput e node)
   \<and> firstMatch node = find (\<lambda>e. kindPredicate e node)
        [EnumEmitter, ClassEmitter, InterfaceEmitter, TypeAliasEmitter,
         FunctionEmitter, MethodEmitter, VariableStatementEmitter]
   \<and> (kindPredicate e node \<longrightarrow>
        firstMatch node = Some e \<and> emitNode node = emitterOutput e node
        \<and> (\<forall>e'. kindPredicate e' node \<longrightarrow> e' = e))
   \<and> declarationsOf children =
        (if concat (map emitNode children) \<noteq> [] then Some (concat (map emitNode children))
         else None)"
proof -
  have one: "kindPredicate e node \<longrightarrow>
        firstMatch node = Some e \<and> emitNode node = emitterOutput e node
        \<and> (\<forall>e'. kindPredicate e' node \<longrightarrow> e' = e)"
  proof
    assume match: "kindPredicate e node"
    then have first: "firstMatch node = Some e"
      by (simp only: firstMatch_iff)
    have "emitNode node = emitterOutput e node"
      by (simp only: emitNode_firstMatch first option.simps)
    moreover have "\<forall>e'. kindPredicate e' node \<longrightarrow> e' = e"
      using match by (blast intro: kindPredicate_unique)
    ultimately show "firstMatch node = Some e \<and> emitNode node = emitterOutput e node
        \<and> (\<forall>e'. kindPredicate e' node \<longrightarrow> e' = e)"
      using first by blast
  qed
  have whole: "declarationsOf children =
        (if concat (map emitNode children) \<noteq> [] then Some (concat (map emitNode children))
         else None)"
    by (simp add: declarationsOf_def foldl_append_concat)
  have order: "firstMatch node = find (\<lambda>e. kindPredicate e node)
        [EnumEmitter, ClassEmitter, InterfaceEmitter, TypeAliasEmitter,
         FunctionEmitter, MethodEmitter, VariableStatementEmitter]"
    by (simp only: firstMatch_def priorityOrder_def)
  from emitNode_firstMatch [of node] order one whole show ?thesis
    by blast
qed

theorem dispatch_first_match_witness:
  "firstMatch (FunctionNode \<lparr>fun_name = Some ''start'', fun_parameters = [], fun_type = None\<rparr>)
     = Some FunctionEmitter
   \<and> emitNode (FunctionNode \<lparr>fun_name = Some ''start'', fun_parameters = [], fun_type = None\<rparr>)
     = emitterOutput FunctionEmitter
         (FunctionNode \<lparr>fun_name = Some ''start'', fun_parameters = [], fun_type = None\<rparr>)"
  using dispatch_first_match [of
      "FunctionNode \<lparr>fun_name = Some ''start'', fun_parameters = [], fun_type = None\<rparr>"
      FunctionEmitter]
  by simp

section \<open>File selection\<close>

lemma startsWith_iff: "startsWith s sub \<longleftrightarrow> (\<exists>r. s = sub @ r)"
  by (induction s sub rule: startsWith.induct) auto

lemma includesStr_iff: "includesStr s sub \<longleftrightarrow> (\<exists>a b. s = a @ sub @ b)"
proof (induction s)
  case Nil
  then show ?case by auto
next
  case (Cons c cs)
  show ?case
  proof
    assume "includesStr (c # cs) sub"
    then consider "startsWith (c # cs) sub" | "includesStr cs sub" by auto
    then show "\<exists>a b. c # cs = a @ sub @ b"
    proof cases
      case 1
      then obtain r where "c # cs = sub @ r" by (auto simp: startsWith_iff)
      then have "c # cs = [] @ sub @ r" by simp
      then show ?thesis by blast
    next
      case 2
      with Cons.IH obtain a b where "cs = a @ sub @ b" by blast
      then have "c # cs = (c # a) @ sub @ b" by simp
      then show ?thesis by blast
    qed
  next
    assume "\<exists>a b. c # cs = a @ sub @ b"
    then obtain a b where eq: "c # cs = a @ sub @ b" by blast
    show "includesStr (c # cs) sub"
    proof (cases a)
      case Nil
      with eq have "startsWith (c # cs) sub" by (auto simp: startsWith_iff)
      then show ?thesis by simp
    next
      case (Cons d a')
      with eq have "cs = a' @ sub @ b" by simp
      with Cons.IH have "includesStr cs sub" by blast
      then show ?thesis by simp
    qed
  qed
qed

lemma indexOf_None_iff: "indexOf s sep = None \<longleftrightarrow> \<not> includesStr s sep"
  by (induction s) auto

lemma indexOf_Some_drop:
  "indexOf s sep = Some i \<Longrightarrow> i \<le> length s \<and> startsWith (drop i s) sep"
proof (induction s arbitrary: i)
  case Nil
  then show ?case by (auto split: if_splits)
next
  case (Cons c cs)
  then show ?case by (cases "startsWith (c # cs) sep") auto
qed

lemma indexOf_Some_first:
  "indexOf s sep = Some i \<Longrightarrow> j < i \<Longrightarrow> \<not> startsWith (drop j s) sep"
proof (induction s arbitrary: i j)
  case Nil
  then show ?case by (auto split: if_splits)
next
  case (Cons c cs)
  show ?case
  proof (cases "startsWith (c # cs) sep")
    case True
    with Cons.prems show ?thesis by simp
  next
    case False
    with Cons.prems obtain k where k: "indexOf cs sep = Some k" "i = Suc k" by auto
    show ?thesis
    proof (cases j)
      case 0
      with False show ?thesis by simp
    next
      case (Suc j')
      with Cons.prems k have "j' < k" by simp
      from Cons.IH [OF k(1) this] Suc show ?thesis by simp
    qed
  qed
qed

lemma split_found:
  "sep \<noteq> [] \<Longrightarrow> indexOf s sep = Some i
     \<Longrightarrow> split s sep = take i s # split (drop (i + length sep) s) sep"
  by (subst split.simps) simp

lemma split_without_separator:
  "sep \<noteq> [] \<Longrightarrow> \<not> includesStr s sep \<Longrightarrow> split s sep = [s]"
  using indexOf_None_iff [of s sep] by (subst split.simps) simp

lemma split_not_empty: "sep \<noteq> [] \<Longrightarrow> split s sep \<noteq> []"
  by (subst split.simps) (simp split: option.split)

lemma last_split_after_token:
  "\<not> includesStr suf ''*.'' \<Longrightarrow> last (split (pre @ ''*.'' @ suf) ''*.'') = suf"
proof (induction pre rule: measure_induct_rule [where f = length])
  case (less pre)
  let ?s = "pre @ ''*.'' @ suf"
  have "includesStr ?s ''*.''"
    unfolding includesStr_iff by blast
  then obtain i where i: "indexOf ?s ''*.'' = Some i"
    using indexOf_None_iff [of ?s "''*.''"] by (cases "indexOf ?s ''*.''") auto
  have here: "startsWith (drop (length pre) ?s) ''*.''"
    by (simp add: startsWith_iff)
  have le: "i \<le> length pre"
    using indexOf_Some_first [OF i, of "length pre"] here by (cases "i \<le> length pre") auto
  define q where "q = drop i pre"
  have drop_i: "drop i ?s = q @ ''*.'' @ suf"
    using le by (simp add: q_def)
  from indexOf_Some_drop [OF i] obtain r where r: "q @ ''*.'' @ suf = ''*.'' @ r"
    unfolding drop_i startsWith_iff by blast
  have unfold: "split ?s ''*.'' = take i ?s # split (drop (i + 2) ?s) ''*.''"
    using split_found [OF _ i] by simp
  have rest: "drop (i + 2) ?s = drop 2 (drop i ?s)"
    by (simp only: drop_drop add.commute [of 2 i])
  show ?case
  proof (cases q)
    case Nil
    then have "drop (i + 2) ?s = suf"
      unfolding rest drop_i by simp
    with less.prems unfold show ?thesis
      by (simp add: split_without_separator)
  next
    case (Cons c q')
    show ?thesis
    proof (cases q')
      case Nil
      with Cons r show ?thesis by simp
    next
      case (Cons d q'')
      with \<open>q = c # q'\<close> have q: "q = c # d # q''" by simp
      then have tail: "drop (i + 2) ?s = q'' @ ''*.'' @ suf"
        unfolding rest drop_i by simp
      have "length q = length pre - i"
        by (simp add: q_def)
      with q have "Suc (Suc (length q'')) = length pre - i"
        by simp
      then have "length q'' < length pre"
        by arith
      from less.IH [OF this less.prems] tail unfold show ?thesis
        by (simp add: split_not_empty)
    qed
  qed
qed

lemma patternOf_after_token:
  "\<not> includesStr suf ''*.'' \<Longrightarrow> patternOf (pre @ ''*.'' @ suf) = Some suf"
  using last_split_after_token [of suf pre] split_not_empty [of "''*.''" "pre @ ''*.'' @ suf"]
  by (simp add: patternOf_def at_last_def)

lemma patternOf_without_token:
  "\<not> includesStr p ''*.'' \<Longrightarrow> patternOf p = Some p"
  by (simp add: patternOf_def at_last_def split_without_separator)

lemma selected_iff:
  assumes "\<forall>pattern\<in>set patterns. truthy pattern"
  shows "selected patterns fileName
           \<longleftrightarrow> (\<exists>pattern\<in>set patterns. includesStr fileName (patternText pattern))"
proof (cases "find (\<lambda>pattern. includesStr fileName (patternText pattern)) patterns")
  case None
  then have "\<not> selected patterns fileName"
    by (simp add: selected_def)
  moreover from None have "\<forall>pattern\<in>set patterns. \<not> includesStr fileName (patternText pattern)"
    by (simp add: find_None_iff)
  ultimately show ?thesis
    by blast
next
  case (Some pattern)
  then have found: "pattern \<in> set patterns" "includesStr fileName (patternText pattern)"
    by (auto simp: find_Some_iff)
  with assms have "truthy pattern"
    by blast
  with Some have "selected patterns fileName"
    by (simp add: selected_def)
  with found show ?thesis
    by blast
qed

lemma getFiles_listing:
  assumes "compilerOptions tsConfigOptions = Some options"
    and "truthy (rootDir options)"
    and "entries fs (path_resolve env (cwd env) (the (rootDir options))) = Some fileNames"
  shows "getFiles env tsConfigPath tsConfigOptions fs =
           Inr (filter (selected (map patternOf (includePaths tsConfigOptions))) fileNames)"
  using assms by (simp add: getFiles_def)

lemma patternOf_Some: "\<exists>s. patternOf p = Some s"
  using split_not_empty [of "''*.''" p] by (simp add: patternOf_def at_last_def)

lemma selected_patternOf:
  assumes "\<forall>q\<in>set patterns. patternOf q \<noteq> Some []"
  shows "selected (map patternOf patterns) fileName
           \<longleftrightarrow> (\<exists>q\<in>set patterns. includesStr fileName (patternText (patternOf q)))"
proof -
  have "truthy (patternOf q)" if "q \<in> set patterns" for q
  proof -
    from patternOf_Some [of q] obtain s where s: "patternOf q = Some s" by blast
    with assms that have "s \<noteq> []" by auto
    with s show ?thesis by simp
  qed
  then have "\<forall>pattern\<in>set (map patternOf patterns). truthy pattern"
    by auto
  from selected_iff [OF this, of fileName] show ?thesis
    by auto
qed

text \<open>
  C6, as stated, at the include patterns \<open>src/*.\<close> and \<open>./src/**/*.entity.ts\<close>: the
  text after the last \<open>*.\<close> of the second is \<open>entity.ts\<close>, the listed path
  \<open>user.entity.ts\<close> contains it, and the selector keeps no file, because the first
  pattern reduces to the empty string, which every path contains and which is falsy.
\<close>

theorem empty_suffix_counterexample:
  "patternOf ''src/*.'' = Some []
   \<and> patternOf ''./src/**/*.entity.ts'' = Some ''entity.ts''
   \<and> includesStr ''user.entity.ts'' ''entity.ts''
   \<and> getFiles (exampleEnv (exampleConfig (Some ''src'') [''src/*.'', ''./src/**/*.entity.ts'']))
       ''/proj/tsconfig.declaration.json''
       (exampleConfig (Some ''src'') [''src/*.'', ''./src/**/*.entity.ts'']) exampleFs
     = Inr []"
proof -
  have "\<not> includesStr [] ''*.''" "\<not> includesStr ''entity.ts'' ''*.''"
    by simp_all
  with patternOf_after_token [of "[]" "''src/''"]
    patternOf_after_token [of "''entity.ts''" "''./src/**/''"]
  have patterns: "patternOf ''src/*.'' = Some []"
    "patternOf ''./src/**/*.entity.ts'' = Some ''entity.ts''"
    by simp_all
  then show ?thesis
    by (simp add: getFiles_def exampleConfig_def exampleEnv_def exampleFs_def selected_def
        patternText_def)
qed

text \<open>
  C6, amended. With a root directory and include patterns of the form
  \<open>prefix*.suffix\<close>, the suffix not empty, the selector returns the listing of the root
  directory filtered by one test: the path contains the pattern of some include path as a
  substring. The pattern of an include path is the text after its last \<open>*.\<close>, so a
  listed file is selected if and only if its path contains, for some include path, the
  text after the last \<open>*.\<close> of that path.
\<close>

theorem file_selector_suffix:
  assumes "compilerOptions tsConfigOptions = Some options"
    and "truthy (rootDir options)"
    and "entries fs (path_resolve env (cwd env) (the (rootDir options))) = Some fileNames"
    and "\<forall>p\<in>set (includePaths tsConfigOptions).
           \<exists>pre suf. p = pre @ ''*.'' @ suf \<and> suf \<noteq> [] \<and> \<not> includesStr suf ''*.''"
  shows "getFiles env tsConfigPath tsConfigOptions fs =
           Inr (filter (\<lambda>fileName. \<exists>p\<in>set (includePaths tsConfigOptions).
                          includesStr fileName (patternText (patternOf p))) fileNames)
         \<and> (\<forall>pre suf. \<not> includesStr suf ''*.''
               \<longrightarrow> patternText (patternOf (pre @ ''*.'' @ suf)) = suf)
         \<and> (\<forall>fileName.
               (\<exists>p\<in>set (includePaths tsConfigOptions).
                  includesStr fileName (patternText (patternOf p)))
               \<longleftrightarrow> (\<exists>pre suf. pre @ ''*.'' @ suf \<in> set (includePaths tsConfigOptions)
                      \<and> \<not> includesStr suf ''*.'' \<and> includesStr fileName suf))"
proof -
  have "patternOf p \<noteq> Some []" if "p \<in> set (includePaths tsConfigOptions)" for p
  proof -
    from assms(4) that obtain pre suf
      where "p = pre @ ''*.'' @ suf" "suf \<noteq> []" "\<not> includesStr suf ''*.''"
      by blast
    with patternOf_after_token [of suf pre] show ?thesis
      by simp
  qed
  then have "\<forall>q\<in>set (includePaths tsConfigOptions). patternOf q \<noteq> Some []"
    by blast
  from selected_patternOf [OF this]
  have "filter (selected (map patternOf (includePaths tsConfigOptions))) fileNames =
        filter (\<lambda>fileName. \<exists>p\<in>set (includePaths tsConfigOptions).
                  includesStr fileName (patternText (patternOf p))) fileNames"
    by (intro filter_cong refl) blast
  moreover have suffix: "\<forall>pre suf. \<not> includesStr suf ''*.''
               \<longrightarrow> patternText (patternOf (pre @ ''*.'' @ suf)) = suf"
    using patternOf_after_token by (simp add: patternText_def)
  moreover have "(\<exists>p\<in>set (includePaths tsConfigOptions).
                  includesStr fileName (patternText (patternOf p)))
               \<longleftrightarrow> (\<exists>pre suf. pre @ ''*.'' @ suf \<in> set (includePaths tsConfigOptions)
                      \<and> \<not> includesStr suf ''*.'' \<and> includesStr fileName suf)" for fileName
  proof
    assume "\<exists>p\<in>set (includePaths tsConfigOptions).
              includesStr fileName (patternText (patternOf p))"
    then obtain p where p: "p \<in> set (includePaths tsConfigOptions)"
      and found: "includesStr fileName (patternText (patternOf p))"
      by blast
    from assms(4) p obtain pre suf
      where split: "p = pre @ ''*.'' @ suf" "\<not> includesStr suf ''*.''"
      by blast
    with suffix found have "includesStr fileName suf"
      by metis
    with p split show "\<exists>pre suf. pre @ ''*.'' @ suf \<in> set (includePaths tsConfigOptions)
                      \<and> \<not> includesStr suf ''*.'' \<and> includesStr fileName suf"
      by blast
  next
    assume "\<exists>pre suf. pre @ ''*.'' @ suf \<in> set (includePaths tsConfigOptions)
                      \<and> \<not> includesStr suf ''*.'' \<and> includesStr fileName suf"
    then obtain pre suf where p: "pre @ ''*.'' @ suf \<in> set (includePaths tsConfigOptions)"
      and plain: "\<not> includesStr suf ''*.''" and found: "includesStr fileName suf"
      by blast
    from suffix plain found
    have "includesStr fileName (patternText (patternOf (pre @ ''*.'' @ suf)))"
      by metis
    with p show "\<exists>p\<in>set (includePaths tsConfigOptions).
              includesStr fileName (patternText (patternOf p))"
      by blast
  qed
  ultimately show ?thesis
    using getFiles_listing [OF assms(1-3), of tsConfigPath] by simp
qed

theorem file_selector_suffix_witness:
  "getFiles (exampleEnv (exampleConfig (Some ''src'')
        [''./src/**/*.entity.ts'', ''./src/**/*.fixtures.ts'']))
     ''/proj/tsconfig.declaration.json''
     (exampleConfig (Some ''src'') [''./src/**/*.entity.ts'', ''./src/**/*.fixtures.ts''])
     exampleFs
   = Inr [''user.entity.ts'', ''data/user.fixtures.ts'']"
proof -
  let ?config = "exampleConfig (Some ''src'')
        [''./src/**/*.entity.ts'', ''./src/**/*.fixtures.ts'']"
  let ?options = "\<lparr>rootDir = Some ''src'', outFile = Some ''types/index.d.ts''\<rparr>"
  have options: "compilerOptions ?config = Some ?options"
    by (simp add: exampleConfig_def)
  have root: "truthy (rootDir ?options)"
    by simp
  have listing: "entries exampleFs
         (path_resolve (exampleEnv ?config) (cwd (exampleEnv ?config)) (the (rootDir ?options)))
       = Some [''user.entity.ts'', ''user.service.ts'', ''data/user.fixtures.ts'']"
    by (simp add: exampleEnv_def exampleFs_def)
  have entity: "\<exists>pre suf. ''./src/**/*.entity.ts'' = pre @ ''*.'' @ suf \<and> suf \<noteq> []
         \<and> \<not> includesStr suf ''*.''"
    by (rule exI [of _ "''./src/**/''"], rule exI [of _ "''entity.ts''"]) simp
  have fixtures: "\<exists>pre suf. ''./src/**/*.fixtures.ts'' = pre @ ''*.'' @ suf \<and> suf \<noteq> []
         \<and> \<not> includesStr suf ''*.''"
    by (rule exI [of _ "''./src/**/''"], rule exI [of _ "''fixtures.ts''"]) simp
  have form: "\<forall>p\<in>set (includePaths ?config).
           \<exists>pre suf. p = pre @ ''*.'' @ suf \<and> suf \<noteq> [] \<and> \<not> includesStr suf ''*.''"
    using entity fixtures by (simp add: exampleConfig_def)
  note selector = file_selector_suffix [OF options root listing form,
      of "''/proj/tsconfig.declaration.json''"]
  note suffix = selector [THEN conjunct2, THEN conjunct1, rule_format]
  have patterns: "patternText (patternOf ''./src/**/*.entity.ts'') = ''entity.ts''"
    "patternText (patternOf ''./src/**/*.fixtures.ts'') = ''fixtures.ts''"
    using suffix [of "''entity.ts''" "''./src/**/''"] suffix [of "''fixtures.ts''" "''./src/**/''"]
    by simp_all
  from selector [THEN conjunct1] show ?thesis
    by (simp add: exampleConfig_def patterns)
qed

text \<open>
  C10, as stated, at the empty include pattern: it contains no \<open>*.\<close>, every path
  contains it, and the selector keeps no file.
\<close>

theorem empty_pattern_counterexample:
  "\<not> includesStr [] ''*.'' \<and> includesStr ''user.entity.ts'' []
   \<and> getFiles (exampleEnv (exampleConfig (Some ''src'') [[]]))
       ''/proj/tsconfig.declaration.json'' (exampleConfig (Some ''src'') [[]]) exampleFs
     = Inr []"
proof -
  have "patternOf [] = Some []"
    by (simp add: patternOf_without_token)
  then show ?thesis
    by (simp add: getFiles_def exampleConfig_def exampleEnv_def exampleFs_def selected_def
        patternText_def)
qed

text \<open>
  C10, amended. The pattern of an include path that contains no \<open>*.\<close> is the whole
  include path. If no include path of the configuration has the empty pattern, a listed
  file whose path contains such an include path is selected; and an include list of that
  one path selects exactly the listed files whose path contains it.
\<close>

theorem whole_pattern_selector:
  assumes "compilerOptions tsConfigOptions = Some options"
    and "truthy (rootDir options)"
    and "entries fs (path_resolve env (cwd env) (the (rootDir options))) = Some fileNames"
    and "p \<in> set (includePaths tsConfigOptions)"
    and "\<not> includesStr p ''*.''"
    and "\<forall>q\<in>set (includePaths tsConfigOptions). patternOf q \<noteq> Some []"
  shows "patternOf p = Some p
         \<and> (\<exists>selection. getFiles env tsConfigPath tsConfigOptions fs = Inr selection
              \<and> (\<forall>fileName\<in>set fileNames. includesStr fileName p \<longrightarrow> fileName \<in> set selection)
              \<and> (includePaths tsConfigOptions = [p]
                   \<longrightarrow> selection = filter (\<lambda>fileName. includesStr fileName p) fileNames))"
proof -
  have whole: "patternOf p = Some p"
    using assms(5) by (rule patternOf_without_token)
  let ?selection = "filter (selected (map patternOf (includePaths tsConfigOptions))) fileNames"
  have result: "getFiles env tsConfigPath tsConfigOptions fs = Inr ?selection"
    by (rule getFiles_listing [OF assms(1-3)])
  note sel = selected_patternOf [OF assms(6)]
  have kept: "\<forall>fileName\<in>set fileNames. includesStr fileName p \<longrightarrow> fileName \<in> set ?selection"
  proof (intro ballI impI)
    fix fileName
    assume listed: "fileName \<in> set fileNames" and "includesStr fileName p"
    with whole have "includesStr fileName (patternText (patternOf p))"
      by (simp add: patternText_def)
    with assms(4) have "selected (map patternOf (includePaths tsConfigOptions)) fileName"
      unfolding sel by blast
    with listed show "fileName \<in> set ?selection"
      by simp
  qed
  have alone: "includePaths tsConfigOptions = [p]
      \<longrightarrow> ?selection = filter (\<lambda>fileName. includesStr fileName p) fileNames"
  proof
    assume one: "includePaths tsConfigOptions = [p]"
    have "selected (map patternOf (includePaths tsConfigOptions)) fileName
            \<longleftrightarrow> includesStr fileName p" for fileName
      using whole by (simp add: sel) (simp add: one patternText_def)
    then show "?selection = filter (\<lambda>fileName. includesStr fileName p) fileNames"
      by (intro filter_cong refl)
  qed
  from whole result kept alone show ?thesis
    by blast
qed

theorem whole_pattern_selector_witness:
  "patternOf ''user'' = Some ''user''
   \<and> getFiles (exampleEnv (exampleConfig (Some ''src'') [''user'']))
       ''/proj/tsconfig.declaration.json'' (exampleConfig (Some ''src'') [''user'']) exampleFs
     = Inr [''user.entity.ts'', ''user.service.ts'', ''data/user.fixtures.ts'']"
proof -
  let ?config = "exampleConfig (Some ''src'') [''user'']"
  let ?options = "\<lparr>rootDir = Some ''src'', outFile = Some ''types/index.d.ts''\<rparr>"
  have options: "compilerOptions ?config = Some ?options"
    by (simp add: exampleConfig_def)
  have root: "truthy (rootDir ?options)"
    by simp
  have listing: "entries exampleFs
         (path_resolve (exampleEnv ?config) (cwd (exampleEnv ?config)) (the (rootDir ?options)))
       = Some [''user.entity.ts'', ''user.service.ts'', ''data/user.fixtures.ts'']"
    by (simp add: exampleEnv_def exampleFs_def)
  have member: "''user'' \<in> set (includePaths ?config)"
    by (simp add: exampleConfig_def)
  have plain: "\<not> includesStr ''user'' ''*.''"
    by simp
  have nonempty: "\<forall>q\<in>set (includePaths ?config). patternOf q \<noteq> Some []"
    by (simp add: exampleConfig_def patternOf_without_token)
  from whole_pattern_selector [OF options root listing member plain nonempty,
      of "''/proj/tsconfig.declaration.json''"]
  show ?thesis
    by (auto simp: exampleConfig_def)
qed

section \<open>The run\<close>

text \<open>
  C7. With a configuration that names an output file and no root directory, and an
  output file left by an earlier run, the run throws the error that names \<open>rootDir\<close>
  and the configuration path, and writes nothing; but it has removed the output file
  before: the state it leaves is the file system without that file.
\<close>

theorem run_missing_rootDir:
  assumes "setTsConfig env tsConfigPath fs = Some tsConfigOptions"
    and "compilerOptions tsConfigOptions = Some options"
    and "outFile options = Some out" and "out \<noteq> []"
    and "\<not> truthy (rootDir options)"
    and "files fs (path_resolve env (cwd env) out) = Some previous"
  shows "run env tsConfigPath fs =
           (Inl (Error (''Expected rootDir option in '' @ tsConfigPath
                          @ '' session compilerOptions'')),
            fs\<lparr>files := (files fs)(path_resolve env (cwd env) out := None)\<rparr>)"
  using assms
  by (simp add: run_def existsSync_def rmSync_def getFiles_def rootDirError_def)

theorem run_missing_rootDir_witness:
  "fst (run (exampleEnv (exampleConfig None [''./src/**/*.entity.ts'']))
          ''/proj/tsconfig.declaration.json'' exampleFs)
     = Inl (Error ''Expected rootDir option in /proj/tsconfig.declaration.json session compilerOptions'')
   \<and> files exampleFs ''/proj/types/index.d.ts'' = Some ''declare enum Color { }''
   \<and> files (snd (run (exampleEnv (exampleConfig None [''./src/**/*.entity.ts'']))
                   ''/proj/tsconfig.declaration.json'' exampleFs))
        ''/proj/types/index.d.ts'' = None"
proof -
  let ?config = "exampleConfig None [''./src/**/*.entity.ts'']"
  let ?options = "\<lparr>rootDir = None, outFile = Some ''types/index.d.ts''\<rparr>"
  have config: "setTsConfig (exampleEnv ?config) ''/proj/tsconfig.declaration.json'' exampleFs
      = Some ?config"
    by (simp add: setTsConfig_def exampleEnv_def exampleFs_def)
  have options: "compilerOptions ?config = Some ?options"
    by (simp add: exampleConfig_def)
  have out: "outFile ?options = Some ''types/index.d.ts''" "''types/index.d.ts'' \<noteq> []"
    by simp_all
  have root: "\<not> truthy (rootDir ?options)"
    by simp
  have previous: "files exampleFs
      (path_resolve (exampleEnv ?config) (cwd (exampleEnv ?config)) ''types/index.d.ts'')
      = Some ''declare enum Color { }''"
    by (simp add: exampleEnv_def exampleFs_def)
  from run_missing_rootDir [OF config options out root previous] show ?thesis
    by (simp add: exampleEnv_def exampleFs_def)
qed

section \<open>Imports\<close>

lemma setAdd_fold: "foldl setAdd recorded els = recorded @ notYetRecorded recorded els"
  by (induction els arbitrary: recorded) (simp_all add: setAdd_def)

lemma newSet_notYetRecorded: "newSet els = notYetRecorded [] els"
  by (simp add: newSet_def setAdd_fold)

lemma set_notYetRecorded: "set (notYetRecorded recorded els) = set els - set recorded"
  by (induction els arbitrary: recorded) auto

lemma distinct_notYetRecorded: "distinct (notYetRecorded recorded els)"
  by (induction els arbitrary: recorded) (auto simp: set_notYetRecorded)

lemma join_Cons: "join sep (x # xs) = x @ concat (map (\<lambda>y. sep @ y) xs)"
  by (induction xs arbitrary: x) simp_all

lemma importStep_fold:
  "line \<noteq> [] \<Longrightarrow>
   foldl importStep (line, recorded) els =
     (line @ concat (map (\<lambda>y. '', '' @ y) (notYetRecorded recorded els)),
      recorded @ notYetRecorded recorded els)"
  by (induction els arbitrary: line recorded) (simp_all add: importStep_def setAdd_def)

lemma importStep_fold_start:
  "foldl importStep ([], recorded) els =
     ((if notYetRecorded recorded els = [] then []
       else ''import { '' @ join '', '' (notYetRecorded recorded els)),
      recorded @ notYetRecorded recorded els)"
proof (induction els)
  case Nil
  then show ?case by simp
next
  case (Cons x xs)
  show ?case
  proof (cases "x \<in> set recorded")
    case True
    with Cons show ?thesis by (simp add: importStep_def)
  next
    case False
    have "foldl importStep ([], recorded) (x # xs) =
          foldl importStep (''import { '' @ x, recorded @ [x]) xs"
      using False by (simp add: importStep_def setAdd_def)
    also have "\<dots> = ((''import { '' @ x)
          @ concat (map (\<lambda>y. '', '' @ y) (notYetRecorded (recorded @ [x]) xs)),
        (recorded @ [x]) @ notYetRecorded (recorded @ [x]) xs)"
      by (rule importStep_fold) simp
    finally show ?thesis
      using False by (simp add: join_Cons)
  qed
qed

text \<open>
  C9. For a named import from a module path that is not empty and starts neither with a
  dot nor with a slash: when the map has no entry for the path, the call renders one
  line with all the requested bindings and records them; when the map has an entry, the
  call renders a line of its own with the bindings that the entry does not hold yet, each
  once, or nothing when it holds them all, and adds them to the entry. An import from a
  path that starts with a dot or a slash gives the empty string and leaves the map as it
  is.
\<close>

theorem import_deduplication:
  assumes "modulePath \<noteq> []"
    and "\<not> startsWith modulePath ''.''" and "\<not> startsWith modulePath ''/''"
  shows "(importMap modulePath = None \<longrightarrow>
            generateTypeImport importMap (namedImport modulePath els) =
              (''import {'' @ join '','' (notYetRecorded [] els) @ ''} from '' @ sq
                 @ modulePath @ sq @ nl @ nl,
               importMap(modulePath \<mapsto> notYetRecorded [] els)))
         \<and> (\<forall>recorded. importMap modulePath = Some recorded \<longrightarrow>
            generateTypeImport importMap (namedImport modulePath els) =
              ((if notYetRecorded recorded els = [] then []
                else ''import { '' @ join '', '' (notYetRecorded recorded els) @ ''} from ''
                       @ sq @ modulePath @ sq @ nl @ nl),
               importMap(modulePath \<mapsto> recorded @ notYetRecorded recorded els)))
         \<and> (\<forall>recorded. set (notYetRecorded recorded els) = set els - set recorded
               \<and> distinct (notYetRecorded recorded els))
         \<and> (\<forall>relative clause. startsWith relative ''.'' \<or> startsWith relative ''/'' \<longrightarrow>
               generateTypeImport importMap
                 \<lparr>moduleSpecifier = StringLiteral relative, importClause = clause\<rparr>
               = ([], importMap))"
proof -
  have first: "importMap modulePath = None \<longrightarrow>
            generateTypeImport importMap (namedImport modulePath els) =
              (''import {'' @ join '','' (notYetRecorded [] els) @ ''} from '' @ sq
                 @ modulePath @ sq @ nl @ nl,
               importMap(modulePath \<mapsto> notYetRecorded [] els))"
    using assms by (simp add: generateTypeImport_def namedImport_def newSet_notYetRecorded)
  have later: "\<forall>recorded. importMap modulePath = Some recorded \<longrightarrow>
            generateTypeImport importMap (namedImport modulePath els) =
              ((if notYetRecorded recorded els = [] then []
                else ''import { '' @ join '', '' (notYetRecorded recorded els) @ ''} from ''
                       @ sq @ modulePath @ sq @ nl @ nl),
               importMap(modulePath \<mapsto> recorded @ notYetRecorded recorded els))"
    using assms
    by (simp add: generateTypeImport_def namedImport_def importStep_fold_start)
  have bindings: "\<forall>recorded. set (notYetRecorded recorded els) = set els - set recorded
               \<and> distinct (notYetRecorded recorded els)"
    by (simp add: set_notYetRecorded distinct_notYetRecorded)
  have relative: "\<forall>relative clause. startsWith relative ''.'' \<or> startsWith relative ''/'' \<longrightarrow>
               generateTypeImport importMap
                 \<lparr>moduleSpecifier = StringLiteral relative, importClause = clause\<rparr>
               = ([], importMap)"
    by (simp add: generateTypeImport_def)
  from first later bindings relative show ?thesis
    by blast
qed

theorem import_deduplication_witness:
  "generateTypeImport Map.empty (namedImport ''lib'' [''a'', ''b''])
     = (''import {a,b} from '' @ sq @ ''lib'' @ sq @ nl @ nl, [''lib'' \<mapsto> [''a'', ''b'']])
   \<and> generateTypeImport [''lib'' \<mapsto> [''a'', ''b'']] (namedImport ''lib'' [''b'', ''c''])
     = (''import { c} from '' @ sq @ ''lib'' @ sq @ nl @ nl,
        [''lib'' \<mapsto> [''a'', ''b'', ''c'']])
   \<and> generateTypeImport [''lib'' \<mapsto> [''a'', ''b'', ''c'']] (namedImport ''lib'' [''c'', ''a''])
     = ([], [''lib'' \<mapsto> [''a'', ''b'', ''c'']])
   \<and> generateTypeImport [''lib'' \<mapsto> [''a'', ''b'']] (namedImport ''./local'' [''d''])
     = ([], [''lib'' \<mapsto> [''a'', ''b'']])"
proof -
  have lib: "''lib'' \<noteq> []" "\<not> startsWith ''lib'' ''.''" "\<not> startsWith ''lib'' ''/''"
    by simp_all
  note first = import_deduplication [OF lib, of Map.empty "[''a'', ''b'']"]
  note second = import_deduplication [OF lib, of "[''lib'' \<mapsto> [''a'', ''b'']]" "[''b'', ''c'']"]
  note third = import_deduplication [OF lib, of "[''lib'' \<mapsto> [''a'', ''b'', ''c'']]"
      "[''c'', ''a'']"]
  note local = import_deduplication [OF lib, of "[''lib'' \<mapsto> [''a'', ''b'']]" "[]"]
  have "generateTypeImport Map.empty (namedImport ''lib'' [''a'', ''b''])
     = (''import {a,b} from '' @ sq @ ''lib'' @ sq @ nl @ nl, [''lib'' \<mapsto> [''a'', ''b'']])"
    using first by simp
  moreover have "generateTypeImport [''lib'' \<mapsto> [''a'', ''b'']] (namedImport ''lib'' [''b'', ''c''])
     = (''import { c} from '' @ sq @ ''lib'' @ sq @ nl @ nl,
        [''lib'' \<mapsto> [''a'', ''b'', ''c'']])"
    using second by simp
  moreover have "generateTypeImport [''lib'' \<mapsto> [''a'', ''b'', ''c'']]
       (namedImport ''lib'' [''c'', ''a''])
     = ([], [''lib'' \<mapsto> [''a'', ''b'', ''c'']])"
    using third by simp
  moreover have "generateTypeImport [''lib'' \<mapsto> [''a'', ''b'']] (namedImport ''./local'' [''d''])
     = ([], [''lib'' \<mapsto> [''a'', ''b'']])"
    using local by (simp add: namedImport_def)
  ultimately show ?thesis
    by blast
qed

end
